theory Spec2Isabelle
  imports Main "HOL-Library.AList" "HOL-Library.Sublist"
begin

section \<open>Python values, dictionaries and exceptions\<close>

text \<open>
  The agent passes JSON-shaped data around: tool parameters, parameter schemas and the
  optional \<open>user_info\<close> mapping. A Python \<open>str\<close> is a \<open>string\<close>; a Python \<open>dict\<close> with
  string keys is an association list in insertion order with distinct keys
  (\<open>AList.update\<close> overwrites in place or appends, as item assignment does).
\<close>

datatype json =
    JNull
  | JBool bool
  | JInt int
  | JStr string
  | JList "json list"
  | JDict "(string \<times> json) list"

type_synonym 'v dict = "(string \<times> 'v) list"

text \<open>
  Raised exceptions are values. Every constructor stands for an instance of Python's class
  \<open>Exception\<close>, which is the class all handlers of the agent name
  (\<open>except Exception as e\<close>). The interpreter's exit signals (\<open>KeyboardInterrupt\<close>,
  \<open>SystemExit\<close>), which are not instances of \<open>Exception\<close>, are not part of the model.
  \<open>KeyError k\<close> is the error a missing string key \<open>k\<close> raises; the other constructors
  carry the text that \<open>str(e)\<close> returns.
\<close>

datatype exn =
    KeyError string
  | EOFError string
  | ConnectionError string
  | Exception string

definition quote :: "string \<Rightarrow> string" where
  "quote s = [CHR 0x27] @ s @ [CHR 0x27]"

text \<open>
  \<open>str(KeyError(k))\<close> is \<open>repr(k)\<close>, not \<open>k\<close> in quotes. \<open>repr\<close> of a string, a \<open>char\<close>
  being read as the code point of that number: the text is put in single quotes, or in
  double quotes when it holds a single quote and no double quote; the quote in use and
  the backslash get a backslash in front; tab, line feed and carriage return become a
  backslash and \<open>t\<close>, \<open>n\<close>, \<open>r\<close>; every other code point that is not printable (0 to
  31, 127 to 160, 173) becomes a backslash, \<open>x\<close> and its two hexadecimal digits.
\<close>

definition repr_escapes :: "(char \<times> string) list" where
  "repr_escapes =
     [
      (CHR 0x00, CHR 0x5C # ''x00''), (CHR 0x01, CHR 0x5C # ''x01''), (CHR 0x02, CHR 0x5C # ''x02''),
      (CHR 0x03, CHR 0x5C # ''x03''), (CHR 0x04, CHR 0x5C # ''x04''), (CHR 0x05, CHR 0x5C # ''x05''),
      (CHR 0x06, CHR 0x5C # ''x06''), (CHR 0x07, CHR 0x5C # ''x07''), (CHR 0x08, CHR 0x5C # ''x08''),
      (CHR 0x09, CHR 0x5C # ''t''), (CHR 0x0A, CHR 0x5C # ''n''), (CHR 0x0B, CHR 0x5C # ''x0b''),
      (CHR 0x0C, CHR 0x5C # ''x0c''), (CHR 0x0D, CHR 0x5C # ''r''), (CHR 0x0E, CHR 0x5C # ''x0e''),
      (CHR 0x0F, CHR 0x5C # ''x0f''), (CHR 0x10, CHR 0x5C # ''x10''), (CHR 0x11, CHR 0x5C # ''x11''),
      (CHR 0x12, CHR 0x5C # ''x12''), (CHR 0x13, CHR 0x5C # ''x13''), (CHR 0x14, CHR 0x5C # ''x14''),
      (CHR 0x15, CHR 0x5C # ''x15''), (CHR 0x16, CHR 0x5C # ''x16''), (CHR 0x17, CHR 0x5C # ''x17''),
      (CHR 0x18, CHR 0x5C # ''x18''), (CHR 0x19, CHR 0x5C # ''x19''), (CHR 0x1A, CHR 0x5C # ''x1a''),
      (CHR 0x1B, CHR 0x5C # ''x1b''), (CHR 0x1C, CHR 0x5C # ''x1c''), (CHR 0x1D, CHR 0x5C # ''x1d''),
      (CHR 0x1E, CHR 0x5C # ''x1e''), (CHR 0x1F, CHR 0x5C # ''x1f''), (CHR 0x7F, CHR 0x5C # ''x7f''),
      (CHR 0x80, CHR 0x5C # ''x80''), (CHR 0x81, CHR 0x5C # ''x81''), (CHR 0x82, CHR 0x5C # ''x82''),
      (CHR 0x83, CHR 0x5C # ''x83''), (CHR 0x84, CHR 0x5C # ''x84''), (CHR 0x85, CHR 0x5C # ''x85''),
      (CHR 0x86, CHR 0x5C # ''x86''), (CHR 0x87, CHR 0x5C # ''x87''), (CHR 0x88, CHR 0x5C # ''x88''),
      (CHR 0x89, CHR 0x5C # ''x89''), (CHR 0x8A, CHR 0x5C # ''x8a''), (CHR 0x8B, CHR 0x5C # ''x8b''),
      (CHR 0x8C, CHR 0x5C # ''x8c''), (CHR 0x8D, CHR 0x5C # ''x8d''), (CHR 0x8E, CHR 0x5C # ''x8e''),
      (CHR 0x8F, CHR 0x5C # ''x8f''), (CHR 0x90, CHR 0x5C # ''x90''), (CHR 0x91, CHR 0x5C # ''x91''),
      (CHR 0x92, CHR 0x5C # ''x92''), (CHR 0x93, CHR 0x5C # ''x93''), (CHR 0x94, CHR 0x5C # ''x94''),
      (CHR 0x95, CHR 0x5C # ''x95''), (CHR 0x96, CHR 0x5C # ''x96''), (CHR 0x97, CHR 0x5C # ''x97''),
      (CHR 0x98, CHR 0x5C # ''x98''), (CHR 0x99, CHR 0x5C # ''x99''), (CHR 0x9A, CHR 0x5C # ''x9a''),
      (CHR 0x9B, CHR 0x5C # ''x9b''), (CHR 0x9C, CHR 0x5C # ''x9c''), (CHR 0x9D, CHR 0x5C # ''x9d''),
      (CHR 0x9E, CHR 0x5C # ''x9e''), (CHR 0x9F, CHR 0x5C # ''x9f''), (CHR 0xA0, CHR 0x5C # ''xa0''),
      (CHR 0xAD, CHR 0x5C # ''xad'')]"

definition repr_quote :: "string \<Rightarrow> char" where
  "repr_quote s = (if CHR 0x27 \<in> set s \<and> CHR 0x22 \<notin> set s then CHR 0x22 else CHR 0x27)"

definition repr_char :: "char \<Rightarrow> char \<Rightarrow> string" where
  "repr_char q c =
     (if c = q \<or> c = CHR 0x5C then [CHR 0x5C, c]
      else case map_of repr_escapes c of None \<Rightarrow> [c] | Some escaped \<Rightarrow> escaped)"

definition repr :: "string \<Rightarrow> string" where
  "repr s = [repr_quote s] @ concat (map (repr_char (repr_quote s)) s) @ [repr_quote s]"

fun str_exn :: "exn \<Rightarrow> string" where
  "str_exn (KeyError k) = repr k"
| "str_exn (EOFError m) = m"
| "str_exn (ConnectionError m) = m"
| "str_exn (Exception m) = m"

text \<open>\<open>d[k]\<close> raises \<open>KeyError\<close> on a missing key; \<open>d.get(k, default)\<close> does not.\<close>

definition subscript :: "'v dict \<Rightarrow> string \<Rightarrow> exn + 'v" where
  "subscript d k = (case map_of d k of None \<Rightarrow> Inl (KeyError k) | Some v \<Rightarrow> Inr v)"

definition get_default :: "'v dict \<Rightarrow> string \<Rightarrow> 'v \<Rightarrow> 'v" where
  "get_default d k dflt = (case map_of d k of None \<Rightarrow> dflt | Some v \<Rightarrow> v)"

section \<open>The agent: registry, history, tool calls\<close>

text \<open>
  A tool function receives the keyword arguments and acts on the outside world \<open>'w\<close>
  (files, terminal). It either raises or returns a dict, of which the pipeline reads the
  keys \<open>output\<close> and \<open>error\<close> with \<open>.get\<close>; the effects it had before raising stay.
\<close>

record tool_result =
  result_output :: "string option"
  result_error :: "string option"

type_synonym 'w tool_function = "json dict \<Rightarrow> 'w \<Rightarrow> (exn + tool_result) \<times> 'w"

record tool_schema =
  schema_name :: string
  schema_description :: string
  schema_parameters :: "json dict"

record 'w registered_tool =
  tool_func :: "'w tool_function"
  tool_schema :: tool_schema

record turn =
  role :: string
  content :: string

record 'w agent =
  model :: "string option"
  conversation_history :: "turn list"
  available_tools :: "'w registered_tool dict"
  system_prompt :: string

text \<open>\<open>BaseAgent.register_tool\<close>: \<open>self.available_tools[name] = {...}\<close>.\<close>

definition register_tool ::
  "string \<Rightarrow> 'w tool_function \<Rightarrow> string \<Rightarrow> json dict \<Rightarrow> 'w agent \<Rightarrow> 'w agent" where
  "register_tool name function description parameters self =
     self\<lparr>available_tools :=
       AList.update name
         \<lparr>tool_func = function,
          tool_schema = \<lparr>schema_name = name, schema_description = description,
                         schema_parameters = parameters\<rparr>\<rparr>
         (available_tools self)\<rparr>"

text \<open>Several registrations, one after the other, as the setup code makes them.\<close>

fun register_all ::
  "(string \<times> 'w tool_function \<times> string \<times> json dict) list \<Rightarrow> 'w agent \<Rightarrow> 'w agent" where
  "register_all [] self = self"
| "register_all ((name, function, description, parameters) # rest) self =
     register_all rest (register_tool name function description parameters self)"

text \<open>
  A raw tool call is a dict read with \<open>call.get("name", ...)\<close> and
  \<open>call.get("parameters", {})\<close>: either key may be missing.
\<close>

record tool_call =
  call_name :: "string option"
  call_parameters :: "json dict option"

definition call_get_name :: "tool_call \<Rightarrow> string \<Rightarrow> string" where
  "call_get_name call dflt = (case call_name call of None \<Rightarrow> dflt | Some n \<Rightarrow> n)"

definition call_get_parameters :: "tool_call \<Rightarrow> json dict \<Rightarrow> json dict" where
  "call_get_parameters call dflt = (case call_parameters call of None \<Rightarrow> dflt | Some p \<Rightarrow> p)"

record ToolCallResult =
  tcr_name :: string
  tcr_parameters :: "json dict"
  tcr_output :: string
  tcr_error :: "string option"

text \<open>The body of the \<open>try\<close> block of \<open>_execute_tool_calls\<close>, for one call.\<close>

definition execute_call_body ::
  "'w agent \<Rightarrow> tool_call \<Rightarrow> 'w \<Rightarrow> (exn + ToolCallResult) \<times> 'w" where
  "execute_call_body self call w =
     (let tool_name = call_get_name call '''';
          params = call_get_parameters call []
      in case map_of (available_tools self) tool_name of
           Some tool \<Rightarrow>
             (case tool_func tool params w of
                (Inl e, w') \<Rightarrow> (Inl e, w')
              | (Inr result, w') \<Rightarrow>
                  (Inr \<lparr>tcr_name = tool_name, tcr_parameters = params,
                        tcr_output = (case result_output result of None \<Rightarrow> '''' | Some out \<Rightarrow> out),
                        tcr_error = result_error result\<rparr>, w'))
         | None \<Rightarrow>
             (Inr \<lparr>tcr_name = tool_name, tcr_parameters = params, tcr_output = '''',
                   tcr_error = Some (''Tool '' @ quote tool_name @ '' not found'')\<rparr>, w))"

text \<open>One iteration of the loop: the \<open>try\<close> body and its \<open>except Exception\<close> handler.\<close>

definition execute_call :: "'w agent \<Rightarrow> tool_call \<Rightarrow> 'w \<Rightarrow> ToolCallResult \<times> 'w" where
  "execute_call self call w =
     (case execute_call_body self call w of
        (Inr r, w') \<Rightarrow> (r, w')
      | (Inl e, w') \<Rightarrow>
          (\<lparr>tcr_name = call_get_name call ''unknown'',
            tcr_parameters = call_get_parameters call [],
            tcr_output = '''',
            tcr_error = Some (''Error executing tool: '' @ str_exn e)\<rparr>, w'))"

text \<open>The \<open>for call in tool_calls\<close> loop, appending to \<open>tool_results\<close>.\<close>

fun execute_loop ::
  "'w agent \<Rightarrow> tool_call list \<Rightarrow> ToolCallResult list \<Rightarrow> 'w \<Rightarrow> ToolCallResult list \<times> 'w" where
  "execute_loop self [] tool_results w = (tool_results, w)"
| "execute_loop self (call # calls) tool_results w =
     (case execute_call self call w of
        (r, w') \<Rightarrow> execute_loop self calls (tool_results @ [r]) w')"

definition execute_tool_calls ::
  "'w agent \<Rightarrow> tool_call list \<Rightarrow> 'w \<Rightarrow> ToolCallResult list \<times> 'w" where
  "execute_tool_calls self tool_calls w = execute_loop self tool_calls [] w"

text \<open>
  \<open>_prepare_tools\<close>: one entry per registered tool, in registry order. The subscript
  \<open>["properties"]\<close> raises \<open>KeyError\<close> when the key is missing; \<open>required\<close> is read with
  \<open>.get("required", [])\<close>. The keys \<open>schema\<close>, \<open>description\<close> and \<open>parameters\<close> are always
  there, since \<open>register_tool\<close> is the only writer of the registry.
\<close>

record ollama_parameters =
  type_tag :: string
  properties :: json
  required :: json

record ollama_tool =
  tool_name :: string
  tool_description :: string
  tool_parameters :: ollama_parameters

fun prepare_tools_loop ::
  "'w registered_tool dict \<Rightarrow> ollama_tool list \<Rightarrow> exn + ollama_tool list" where
  "prepare_tools_loop [] tools = Inr tools"
| "prepare_tools_loop ((name, tool_data) # items) tools =
     (case subscript (schema_parameters (tool_schema tool_data)) ''properties'' of
        Inl e \<Rightarrow> Inl e
      | Inr props \<Rightarrow>
          prepare_tools_loop items
            (tools @
             [\<lparr>tool_name = name,
               tool_description = schema_description (tool_schema tool_data),
               tool_parameters =
                 \<lparr>type_tag = ''object'', properties = props,
                  required = get_default (schema_parameters (tool_schema tool_data))
                               ''required'' (JList [])\<rparr>\<rparr>]))"

definition prepare_tools :: "'w agent \<Rightarrow> exn + ollama_tool list" where
  "prepare_tools self =
     (if available_tools self = [] then Inr []
      else prepare_tools_loop (available_tools self) [])"

text \<open>\<open>_prepare_messages\<close>: the system turn, the history, the current user turn.\<close>

definition prepare_messages :: "'w agent \<Rightarrow> string \<Rightarrow> turn list" where
  "prepare_messages self message =
     [\<lparr>role = ''system'', content = system_prompt self\<rparr>]
     @ conversation_history self
     @ [\<lparr>role = ''user'', content = message\<rparr>]"

text \<open>
  \<open>format_user_message\<close>. The test \<open>if user_info:\<close> is Python truthiness: \<open>None\<close> and the
  empty dict both take the \<open>else\<close> branch. \<open>json.dumps(_, indent=2)\<close> is library code and a
  parameter here (\<open>dumps\<close>); \<open>user_info\<close> holds JSON data, which it serialises.
\<close>

definition newline :: string where
  "newline = [CHR 0x0A]"

definition user_info_block :: "string \<Rightarrow> string" where
  "user_info_block serialized = ''<user_info>'' @ newline @ serialized @ newline @ ''</user_info>''"

definition user_query_block :: "string \<Rightarrow> string" where
  "user_query_block message = ''<user_query>'' @ newline @ message @ newline @ ''</user_query>''"

definition format_user_message ::
  "(json dict \<Rightarrow> string) \<Rightarrow> string \<Rightarrow> json dict option \<Rightarrow> string" where
  "format_user_message dumps message user_info =
     (case user_info of
        None \<Rightarrow> user_query_block message
      | Some info \<Rightarrow>
          if info \<noteq> []
          then user_info_block (dumps info) @ newline @ newline @ user_query_block message
          else user_query_block message)"

section \<open>One round trip: chat\<close>

text \<open>
  The backend (\<open>self.async_client.chat\<close>) is a parameter: given the model name and the
  messages it raises or returns a response. Of the response the code reads the attribute
  \<open>tool_calls\<close> (possibly absent) and \<open>message\<close> (possibly falsy) with its attribute
  \<open>content\<close> (possibly absent, possibly \<open>None\<close>, on which \<open>str\<close> gives \<open>None\<close> spelled out).
\<close>

record response_message =
  message_content :: "string option option"

record response =
  response_tool_calls :: "tool_call list option"
  response_message :: "response_message option"

type_synonym backend = "string \<Rightarrow> turn list \<Rightarrow> exn + response"

record agent_tool_call =
  atc_name :: string
  atc_parameters :: "json dict"
  atc_output :: string
  atc_error :: "string option"
  atc_thinking :: "string option"

record AgentResponse =
  ar_message :: string
  ar_tool_calls :: "agent_tool_call list"
  ar_thinking :: "string option"

datatype chat_result = Text string | Structured AgentResponse

definition has_tool_calls :: "response \<Rightarrow> bool" where
  "has_tool_calls r = (case response_tool_calls r of None \<Rightarrow> False | Some tcs \<Rightarrow> tcs \<noteq> [])"

definition response_content :: "response \<Rightarrow> string" where
  "response_content r =
     (case response_message r of
        None \<Rightarrow> ''''
      | Some m \<Rightarrow>
          (case message_content m of
             None \<Rightarrow> ''''
           | Some None \<Rightarrow> ''None''
           | Some (Some s) \<Rightarrow> s))"

definition no_model_error :: string where
  "no_model_error = ''Error: No model specified for Ollama agent''"

text \<open>The body of the \<open>try\<close> block of \<open>chat\<close>; \<open>Inl\<close> is an exception on its way to the handler.\<close>

definition chat_body ::
  "backend \<Rightarrow> string \<Rightarrow> turn list \<Rightarrow> 'w agent \<Rightarrow> 'w \<Rightarrow> (exn + chat_result) \<times> 'w agent \<times> 'w" where
  "chat_body backend formatted_message messages self w =
     (case model self of
        None \<Rightarrow> (Inr (Text no_model_error), self, w)
      | Some m \<Rightarrow>
          if m = [] then (Inr (Text no_model_error), self, w)
          else
            (case backend m messages of
               Inl e \<Rightarrow> (Inl e, self, w)
             | Inr response \<Rightarrow>
                 (let self1 = self\<lparr>conversation_history :=
                        conversation_history self @ [\<lparr>role = ''user'', content = formatted_message\<rparr>]\<rparr>;
                      content = response_content response;
                      self2 = self1\<lparr>conversation_history :=
                        conversation_history self1 @ [\<lparr>role = ''assistant'', content = content\<rparr>]\<rparr>
                  in if has_tool_calls response
                     then
                       (case execute_tool_calls self2
                               (case response_tool_calls response of None \<Rightarrow> [] | Some tcs \<Rightarrow> tcs)
                               w of
                          (tool_calls_results, w') \<Rightarrow>
                            (Inr (Structured
                               \<lparr>ar_message = content,
                                ar_tool_calls =
                                  map (\<lambda>result.
                                    \<lparr>atc_name = tcr_name result, atc_parameters = tcr_parameters result,
                                     atc_output = tcr_output result, atc_error = tcr_error result,
                                     atc_thinking = None\<rparr>) tool_calls_results,
                                ar_thinking = None\<rparr>), self2, w'))
                     else (Inr (Text content), self2, w))))"

text \<open>
  \<open>chat\<close>: formatting, message and tool preparation happen before the \<open>try\<close>, so what they
  raise leaves \<open>chat\<close> (outer \<open>Inl\<close>); what the \<open>try\<close> body raises becomes an error string.
\<close>

definition chat ::
  "(json dict \<Rightarrow> string) \<Rightarrow> backend \<Rightarrow> string \<Rightarrow> json dict option \<Rightarrow> 'w agent \<Rightarrow> 'w
   \<Rightarrow> (exn + chat_result) \<times> 'w agent \<times> 'w" where
  "chat dumps backend message user_info self w =
     (let formatted_message = format_user_message dumps message user_info;
          messages = prepare_messages self formatted_message
      in case prepare_tools self of
           Inl e \<Rightarrow> (Inl e, self, w)
         | Inr tools \<Rightarrow>
             (case chat_body backend formatted_message messages self w of
                (Inr r, self', w') \<Rightarrow> (Inr r, self', w')
              | (Inl e, self', w') \<Rightarrow>
                  (Inr (Text (''Error communicating with Ollama: '' @ str_exn e)), self', w')))"

section \<open>The default permission callback\<close>

text \<open>
  Modelled from the spec: the enum \<open>PermissionStatus\<close> and the value class
  \<open>PermissionRequest\<close> live in \<open>agent/permissions.py\<close>, which is not among the sources;
  section 3 of the specification gives the three statuses and the two fields.
\<close>

datatype PermissionStatus = GRANTED | DENIED | ASK

record PermissionRequest =
  operation :: string
  details :: "json dict"

text \<open>
  Standard input is the sequence of lines the user will type: \<open>stdin i\<close> is line \<open>i\<close>, or
  \<open>None\<close> once the input has ended, where \<open>input()\<close> raises \<open>EOFError\<close>. The sequence may be
  infinite, so \<open>while True\<close> may run forever: the loop is a partial function, and not
  returning is the value \<open>None\<close>. The state is the number of lines read and the texts
  written so far (by \<open>print\<close>, and by \<open>input\<close> for its prompt).

  \<open>str.strip\<close> and \<open>str.lower\<close> are methods of Python's built-in string type (Unicode
  white space, Unicode case mapping). Like \<open>json.dumps\<close> they are library code and
  parameters here: \<open>strip\<close> and \<open>lower\<close>.
\<close>

definition prompt_text :: string where
  "prompt_text = ''Allow this operation? (y/n): ''"

definition retry_text :: string where
  "retry_text = ''Please enter '' @ quote ''y'' @ '' or '' @ quote ''n''"

partial_function (option) prompt_loop ::
  "(string \<Rightarrow> string) \<Rightarrow> (string \<Rightarrow> string) \<Rightarrow> (nat \<Rightarrow> string option) \<Rightarrow> nat
   \<Rightarrow> string list \<Rightarrow> ((exn + PermissionStatus) \<times> nat \<times> string list) option" where
  "prompt_loop strip lower stdin pos out =
     (case stdin pos of
        None \<Rightarrow> Some (Inl (EOFError ''EOF when reading a line''), pos, out @ [prompt_text])
      | Some line \<Rightarrow>
          (let response = lower (strip line) in
           if response \<in> set [''y'', ''yes'']
           then Some (Inr GRANTED, Suc pos, out @ [prompt_text])
           else if response \<in> set [''n'', ''no'']
           then Some (Inr DENIED, Suc pos, out @ [prompt_text])
           else prompt_loop strip lower stdin (Suc pos) (out @ [prompt_text, retry_text])))"

text \<open>
  \<open>_permission_request_callback\<close>: the two header lines, then the loop. The first header
  line starts with a line feed and the padlock sign (here its four UTF-8 bytes).
\<close>

definition request_header :: "(json dict \<Rightarrow> string) \<Rightarrow> PermissionRequest \<Rightarrow> string list" where
  "request_header dumps permission_request =
     [[CHR 0x0A, CHR 0xF0, CHR 0x9F, CHR 0x94, CHR 0x92] @ '' Permission Request: ''
        @ operation permission_request,
      ''Details: '' @ dumps (details permission_request)]"

definition permission_request_callback ::
  "(json dict \<Rightarrow> string) \<Rightarrow> (string \<Rightarrow> string) \<Rightarrow> (string \<Rightarrow> string) \<Rightarrow> PermissionRequest
   \<Rightarrow> (nat \<Rightarrow> string option) \<Rightarrow> nat \<Rightarrow> string list
   \<Rightarrow> ((exn + PermissionStatus) \<times> nat \<times> string list) option" where
  "permission_request_callback dumps strip lower permission_request stdin pos out =
     prompt_loop strip lower stdin pos (out @ request_header dumps permission_request)"

text \<open>What the loop accepts, for stating its behaviour.\<close>

definition valid_answer :: "(string \<Rightarrow> string) \<Rightarrow> (string \<Rightarrow> string) \<Rightarrow> string \<Rightarrow> bool" where
  "valid_answer strip lower line = (lower (strip line) \<in> set [''y'', ''yes'', ''n'', ''no''])"

text \<open>
  For the examples, whose lines are ASCII text: what \<open>str.strip\<close> and \<open>str.lower\<close> do on
  ASCII text (the white space below code point 128, the letters \<open>A\<close> to \<open>Z\<close>).
\<close>

definition ascii_space :: "char \<Rightarrow> bool" where
  "ascii_space c =
     (c \<in> set [CHR 0x09, CHR 0x0A, CHR 0x0B, CHR 0x0C, CHR 0x0D,
                CHR 0x1C, CHR 0x1D, CHR 0x1E, CHR 0x1F, CHR 0x20])"

definition ascii_strip :: "string \<Rightarrow> string" where
  "ascii_strip s = rev (dropWhile ascii_space (rev (dropWhile ascii_space s)))"

definition ascii_lower_char :: "char \<Rightarrow> char" where
  "ascii_lower_char c =
     (case map_of (zip ''ABCDEFGHIJKLMNOPQRSTUVWXYZ'' ''abcdefghijklmnopqrstuvwxyz'') c of
        None \<Rightarrow> c
      | Some l \<Rightarrow> l)"

definition ascii_lower :: "string \<Rightarrow> string" where
  "ascii_lower s = map ascii_lower_char s"

section \<open>Sequences of chat calls, and example data\<close>

text \<open>
  A freshly constructed agent has an empty history and an empty registry. A caller runs
  chat calls one after the other; each has its message, its \<open>user_info\<close> and what the
  backend does at that moment. A call that raises ends the run.
\<close>

definition fresh_agent :: "string option \<Rightarrow> string \<Rightarrow> 'w agent" where
  "fresh_agent m prompt =
     \<lparr>model = m, conversation_history = [], available_tools = [], system_prompt = prompt\<rparr>"

fun chats ::
  "(json dict \<Rightarrow> string) \<Rightarrow> (backend \<times> string \<times> json dict option) list \<Rightarrow> 'w agent \<Rightarrow> 'w
   \<Rightarrow> 'w agent \<times> 'w" where
  "chats dumps [] self w = (self, w)"
| "chats dumps ((backend, message, user_info) # rest) self w =
     (case chat dumps backend message user_info self w of
        (Inl e, self', w') \<Rightarrow> (self', w')
      | (Inr r, self', w') \<Rightarrow> chats dumps rest self' w')"

text \<open>
  A chat call is successful without tool use when a model is set, the tools can be
  prepared, and the backend returns a response that carries no tool calls.
\<close>

definition chat_succeeds_without_tools ::
  "(json dict \<Rightarrow> string) \<Rightarrow> backend \<Rightarrow> string \<Rightarrow> json dict option \<Rightarrow> 'w agent \<Rightarrow> bool" where
  "chat_succeeds_without_tools dumps backend message user_info self =
     (case model self of
        None \<Rightarrow> False
      | Some m \<Rightarrow>
          m \<noteq> [] \<and>
          (case prepare_tools self of Inl e \<Rightarrow> False | Inr tools \<Rightarrow> True) \<and>
          (case backend m (prepare_messages self (format_user_message dumps message user_info)) of
             Inl e \<Rightarrow> False
           | Inr response \<Rightarrow> \<not> has_tool_calls response))"

fun all_succeed_without_tools ::
  "(json dict \<Rightarrow> string) \<Rightarrow> (backend \<times> string \<times> json dict option) list \<Rightarrow> 'w agent \<Rightarrow> 'w
   \<Rightarrow> bool" where
  "all_succeed_without_tools dumps [] self w = True"
| "all_succeed_without_tools dumps ((backend, message, user_info) # rest) self w =
     (chat_succeeds_without_tools dumps backend message user_info self \<and>
      (case chat dumps backend message user_info self w of
         (r, self', w') \<Rightarrow> all_succeed_without_tools dumps rest self' w'))"

text \<open>
  Example data: the world is a log of the tools that ran. \<open>echo_tool\<close> succeeds,
  \<open>failing_tool\<close> raises after leaving its mark, and so does \<open>lookup_tool\<close>, with the
  \<open>KeyError\<close> of a key that holds an apostrophe. \<open>example_dumps\<close> stands in for
  \<open>json.dumps\<close> in the examples and writes the keys only.
\<close>

definition echo_tool :: "string list tool_function" where
  "echo_tool kwargs w = (Inr \<lparr>result_output = Some ''done'', result_error = None\<rparr>, w @ [''echo''])"

definition failing_tool :: "string list tool_function" where
  "failing_tool kwargs w = (Inl (Exception ''disk full''), w @ [''failing''])"

definition lookup_tool :: "string list tool_function" where
  "lookup_tool kwargs w = (Inl (KeyError (''it'' @ [CHR 0x27] @ ''s'')), w @ [''lookup''])"

definition object_schema :: "json dict" where
  "object_schema = [(''type'', JStr ''object''), (''properties'', JDict [])]"

definition example_agent :: "string list agent" where
  "example_agent =
     register_tool ''failing'' failing_tool ''always fails'' object_schema
       (register_tool ''echo'' echo_tool ''echoes'' object_schema
          (fresh_agent (Some ''llama3'') ''You are a coding assistant.''))"

definition lookup_agent :: "string list agent" where
  "lookup_agent = register_tool ''lookup'' lookup_tool ''looks a key up'' object_schema example_agent"

definition lookup_call :: tool_call where
  "lookup_call = \<lparr>call_name = Some ''lookup'', call_parameters = Some []\<rparr>"

definition echo_call :: tool_call where
  "echo_call = \<lparr>call_name = Some ''echo'', call_parameters = Some []\<rparr>"

definition failing_call :: tool_call where
  "failing_call = \<lparr>call_name = Some ''failing'', call_parameters = Some [(''path'', JStr ''a.txt'')]\<rparr>"

definition unknown_call :: tool_call where
  "unknown_call = \<lparr>call_name = Some ''rm_rf'', call_parameters = None\<rparr>"

definition example_stdin :: "nat \<Rightarrow> string option" where
  "example_stdin i = (if i = 0 then Some ''maybe'' else if i = 1 then Some '' YES '' else None)"

definition example_request :: PermissionRequest where
  "example_request = \<lparr>operation = ''delete_file'', details = [(''path'', JStr ''a.txt'')]\<rparr>"

definition example_dumps :: "json dict \<Rightarrow> string" where
  "example_dumps d = ''{'' @ concat (map (\<lambda>(k, v). k) d) @ ''}''"

definition plain_backend :: backend where
  "plain_backend m messages =
     Inr \<lparr>response_tool_calls = None,
          response_message = Some \<lparr>message_content = Some (Some ''hi'')\<rparr>\<rparr>"

definition broken_backend :: backend where
  "broken_backend m messages = Inl (ConnectionError ''connection refused'')"

section \<open>The tool execution pipeline\<close>

text \<open>The loop with its accumulator, one call at a time and over appended batches.\<close>

lemma execute_loop_acc:
  "execute_loop self calls acc w =
     (acc @ fst (execute_loop self calls [] w), snd (execute_loop self calls [] w))"
proof (induction calls arbitrary: acc w)
  case Nil
  show ?case by simp
next
  case (Cons call calls)
  have "execute_loop self (call # calls) acc w =
          execute_loop self calls (acc @ [fst (execute_call self call w)])
            (snd (execute_call self call w))"
    by (simp add: case_prod_beta)
  moreover have "execute_loop self (call # calls) [] w =
          execute_loop self calls [fst (execute_call self call w)]
            (snd (execute_call self call w))"
    by (simp add: case_prod_beta)
  ultimately show ?case
    using Cons.IH [of "acc @ [fst (execute_call self call w)]"]
          Cons.IH [of "[fst (execute_call self call w)]"]
    by simp
qed

lemma execute_tool_calls_Nil: "execute_tool_calls self [] w = ([], w)"
  by (simp add: execute_tool_calls_def)

lemma execute_tool_calls_Cons:
  "execute_tool_calls self (call # calls) w =
     (fst (execute_call self call w)
        # fst (execute_tool_calls self calls (snd (execute_call self call w))),
      snd (execute_tool_calls self calls (snd (execute_call self call w))))"
  unfolding execute_tool_calls_def
  using execute_loop_acc [of self calls "[fst (execute_call self call w)]"]
  by (simp add: case_prod_beta)

lemma execute_tool_calls_append:
  "execute_tool_calls self (xs @ ys) w =
     (fst (execute_tool_calls self xs w)
        @ fst (execute_tool_calls self ys (snd (execute_tool_calls self xs w))),
      snd (execute_tool_calls self ys (snd (execute_tool_calls self xs w))))"
  by (induction xs arbitrary: w)
     (simp_all add: execute_tool_calls_Nil execute_tool_calls_Cons)

lemma length_execute_tool_calls:
  "length (fst (execute_tool_calls self calls w)) = length calls"
  by (induction calls arbitrary: w)
     (simp_all add: execute_tool_calls_Nil execute_tool_calls_Cons)

lemma execute_call_raises:
  assumes "map_of (available_tools self) (call_get_name call '''') = Some tool"
      and "tool_func tool (call_get_parameters call []) w = (Inl e, w')"
  shows "execute_call self call w =
           (\<lparr>tcr_name = call_get_name call ''unknown'',
             tcr_parameters = call_get_parameters call [],
             tcr_output = '''',
             tcr_error = Some (''Error executing tool: '' @ str_exn e)\<rparr>, w')"
  using assms by (simp add: execute_call_def execute_call_body_def Let_def)

lemma execute_call_unknown:
  assumes "map_of (available_tools self) (call_get_name call '''') = None"
  shows "execute_call self call w =
           (\<lparr>tcr_name = call_get_name call '''',
             tcr_parameters = call_get_parameters call [],
             tcr_output = '''',
             tcr_error = Some (''Tool '' @ [CHR 0x27] @ call_get_name call '''' @ [CHR 0x27]
                               @ '' not found'')\<rparr>, w)"
  using assms by (simp add: execute_call_def execute_call_body_def quote_def Let_def)

lemma execute_call_parameters:
  "tcr_parameters (fst (execute_call self call w)) = call_get_parameters call []"
  by (simp add: execute_call_def execute_call_body_def Let_def split: option.splits prod.splits sum.splits)

lemma execute_call_name:
  "call_name call = Some n \<Longrightarrow> tcr_name (fst (execute_call self call w)) = n"
  by (simp add: execute_call_def execute_call_body_def call_get_name_def Let_def
           split: option.splits prod.splits sum.splits)

lemma execute_tool_calls_nth:
  "i < length calls \<Longrightarrow>
   fst (execute_tool_calls self calls w) ! i =
     fst (execute_call self (calls ! i) (snd (execute_tool_calls self (take i calls) w)))"
proof (induction calls arbitrary: i w)
  case Nil
  then show ?case by simp
next
  case (Cons call calls)
  show ?case
  proof (cases i)
    case 0
    then show ?thesis
      by (simp add: execute_tool_calls_Cons execute_tool_calls_Nil)
  next
    case (Suc j)
    with Cons.prems have "j < length calls" by simp
    from Cons.IH [OF this, of "snd (execute_call self call w)"] show ?thesis
      by (simp add: Suc execute_tool_calls_Cons)
  qed
qed

lemmas example_defs =
  example_agent_def register_tool_def fresh_agent_def echo_call_def failing_call_def
  unknown_call_def echo_tool_def failing_tool_def object_schema_def
  call_get_name_def call_get_parameters_def

lemmas execute_defs =
  execute_tool_calls_def execute_call_def execute_call_body_def quote_def Let_def

text \<open>\<open>str\<close> of a \<open>KeyError\<close> on some keys: plain, with an apostrophe, with both quotes,
  with a backslash and a line feed, with code points that are not printable.\<close>

lemmas repr_defs = repr_def repr_quote_def repr_char_def repr_escapes_def

lemma repr_examples:
  "repr ''properties'' = quote ''properties''"
  "repr (''it'' @ [CHR 0x27] @ ''s'') = [CHR 0x22] @ ''it'' @ [CHR 0x27] @ ''s'' @ [CHR 0x22]"
  "repr [CHR 0x27, CHR 0x22] = [CHR 0x27, CHR 0x5C, CHR 0x27, CHR 0x22, CHR 0x27]"
  "repr [CHR ''a'', CHR 0x5C, CHR 0x0A] =
     [CHR 0x27, CHR ''a'', CHR 0x5C, CHR 0x5C, CHR 0x5C, CHR ''n'', CHR 0x27]"
  "repr [CHR 0x07, CHR 0xA0, CHR 0xE9] =
     [CHR 0x27, CHR 0x5C, CHR ''x'', CHR ''0'', CHR ''7'', CHR 0x5C, CHR ''x'', CHR ''a'', CHR ''0'',
      CHR 0xE9, CHR 0x27]"
  by (simp_all add: repr_defs quote_def)

text \<open>
  Claim C1 (tool-call isolation). In any batch, when the registered function invoked for a
  call raises, the batch still returns: the results of the earlier calls, then for this call
  a result with empty output and the error \<open>Error executing tool: \<close> followed by the
  exception's message \<open>str(e)\<close>, then the results of all later calls, which run in the
  world the failing call left behind.
\<close>

theorem tool_call_isolation:
  assumes "map_of (available_tools self) (call_get_name call '''') = Some tool"
      and "execute_tool_calls self before w = (rs1, w1)"
      and "tool_func tool (call_get_parameters call []) w1 = (Inl e, w2)"
      and "execute_tool_calls self later w2 = (rs2, w3)"
  shows "execute_tool_calls self (before @ call # later) w =
           (rs1 @
            [\<lparr>tcr_name = call_get_name call ''unknown'',
              tcr_parameters = call_get_parameters call [],
              tcr_output = '''',
              tcr_error = Some (''Error executing tool: '' @ str_exn e)\<rparr>] @ rs2, w3)"
  using assms(2,4) execute_call_raises [OF assms(1,3)]
  by (simp add: execute_tool_calls_append execute_tool_calls_Cons)

theorem tool_call_isolation_witness:
  "map_of (available_tools lookup_agent) (call_get_name lookup_call '''')
     = Some \<lparr>tool_func = lookup_tool,
             tool_schema = \<lparr>schema_name = ''lookup'', schema_description = ''looks a key up'',
                            schema_parameters = object_schema\<rparr>\<rparr> \<and>
   execute_tool_calls lookup_agent [echo_call] []
     = ([\<lparr>tcr_name = ''echo'', tcr_parameters = [], tcr_output = ''done'', tcr_error = None\<rparr>],
        [''echo'']) \<and>
   lookup_tool (call_get_parameters lookup_call []) [''echo'']
     = (Inl (KeyError (''it'' @ [CHR 0x27] @ ''s'')), [''echo'', ''lookup'']) \<and>
   execute_tool_calls lookup_agent [failing_call, echo_call] [''echo'', ''lookup'']
     = ([\<lparr>tcr_name = ''failing'', tcr_parameters = [(''path'', JStr ''a.txt'')], tcr_output = '''',
           tcr_error = Some ''Error executing tool: disk full''\<rparr>,
         \<lparr>tcr_name = ''echo'', tcr_parameters = [], tcr_output = ''done'', tcr_error = None\<rparr>],
        [''echo'', ''lookup'', ''failing'', ''echo'']) \<and>
   execute_tool_calls lookup_agent ([echo_call] @ lookup_call # [failing_call, echo_call]) []
     = ([\<lparr>tcr_name = ''echo'', tcr_parameters = [], tcr_output = ''done'', tcr_error = None\<rparr>,
         \<lparr>tcr_name = ''lookup'', tcr_parameters = [], tcr_output = '''',
           tcr_error = Some (''Error executing tool: '' @ [CHR 0x22] @ ''it'' @ [CHR 0x27] @ ''s''
                             @ [CHR 0x22])\<rparr>,
         \<lparr>tcr_name = ''failing'', tcr_parameters = [(''path'', JStr ''a.txt'')], tcr_output = '''',
           tcr_error = Some ''Error executing tool: disk full''\<rparr>,
         \<lparr>tcr_name = ''echo'', tcr_parameters = [], tcr_output = ''done'', tcr_error = None\<rparr>],
        [''echo'', ''lookup'', ''failing'', ''echo''])"
proof -
  let ?tool = "\<lparr>tool_func = lookup_tool,
             tool_schema = \<lparr>schema_name = ''lookup'', schema_description = ''looks a key up'',
                            schema_parameters = object_schema\<rparr>\<rparr>"
  let ?ok = "\<lparr>tcr_name = ''echo'', tcr_parameters = [], tcr_output = ''done'', tcr_error = None\<rparr>"
  let ?failed = "\<lparr>tcr_name = ''failing'', tcr_parameters = [(''path'', JStr ''a.txt'')],
                  tcr_output = '''', tcr_error = Some ''Error executing tool: disk full''\<rparr>"
  have h1: "map_of (available_tools lookup_agent) (call_get_name lookup_call '''') = Some ?tool"
    by (simp add: example_defs lookup_agent_def lookup_call_def)
  have h2: "execute_tool_calls lookup_agent [echo_call] [] = ([?ok], [''echo''])"
    by (simp add: example_defs execute_defs lookup_agent_def)
  have h3: "tool_func ?tool (call_get_parameters lookup_call []) [''echo'']
              = (Inl (KeyError (''it'' @ [CHR 0x27] @ ''s'')), [''echo'', ''lookup''])"
    by (simp add: lookup_tool_def)
  have h4: "execute_tool_calls lookup_agent [failing_call, echo_call] [''echo'', ''lookup'']
              = ([?failed, ?ok], [''echo'', ''lookup'', ''failing'', ''echo''])"
    by (simp add: example_defs execute_defs lookup_agent_def)
  have msg: "str_exn (KeyError (''it'' @ [CHR 0x27] @ ''s''))
                = [CHR 0x22] @ ''it'' @ [CHR 0x27] @ ''s'' @ [CHR 0x22]"
    by (simp add: repr_defs)
  from tool_call_isolation [OF h1 h2 h3 h4] h1 h2 h3 h4 msg show ?thesis
    by (simp add: call_get_name_def call_get_parameters_def lookup_call_def)
qed

text \<open>
  Claim C2 (an unknown tool is data). A call whose name is not a key of the registry yields
  a result with empty output and the error \<open>Tool '<name>' not found\<close> with the requested
  name; nothing is raised, the world is untouched by this call, and the calls after it run
  and are reported.
\<close>

theorem unknown_tool_is_data:
  assumes "call_get_name call '''' \<notin> fst ` set (available_tools self)"
      and "execute_tool_calls self before w = (rs1, w1)"
      and "execute_tool_calls self later w1 = (rs2, w2)"
  shows "execute_tool_calls self (before @ call # later) w =
           (rs1 @
            [\<lparr>tcr_name = call_get_name call '''',
              tcr_parameters = call_get_parameters call [],
              tcr_output = '''',
              tcr_error = Some (''Tool '' @ [CHR 0x27] @ call_get_name call '''' @ [CHR 0x27]
                                @ '' not found'')\<rparr>] @ rs2, w2)"
proof -
  have "map_of (available_tools self) (call_get_name call '''') = None"
    using assms(1) by (simp add: map_of_eq_None_iff)
  from execute_call_unknown [OF this, of w1] show ?thesis
    using assms(2,3)
    by (simp add: execute_tool_calls_append execute_tool_calls_Cons)
qed

theorem unknown_tool_is_data_witness:
  "call_get_name unknown_call '''' \<notin> fst ` set (available_tools example_agent) \<and>
   execute_tool_calls example_agent ([echo_call] @ unknown_call # [echo_call]) []
     = ([\<lparr>tcr_name = ''echo'', tcr_parameters = [], tcr_output = ''done'', tcr_error = None\<rparr>,
         \<lparr>tcr_name = ''rm_rf'', tcr_parameters = [], tcr_output = '''',
           tcr_error = Some (''Tool '' @ [CHR 0x27] @ ''rm_rf'' @ [CHR 0x27] @ '' not found'')\<rparr>,
         \<lparr>tcr_name = ''echo'', tcr_parameters = [], tcr_output = ''done'', tcr_error = None\<rparr>],
        [''echo'', ''echo''])"
proof -
  let ?ok = "\<lparr>tcr_name = ''echo'', tcr_parameters = [], tcr_output = ''done'', tcr_error = None\<rparr>"
  have h1: "call_get_name unknown_call '''' \<notin> fst ` set (available_tools example_agent)"
    by (simp add: example_defs)
  have h2: "execute_tool_calls example_agent [echo_call] [] = ([?ok], [''echo''])"
    by (simp add: example_defs execute_defs)
  have h3: "execute_tool_calls example_agent [echo_call] [''echo''] = ([?ok], [''echo'', ''echo''])"
    by (simp add: example_defs execute_defs)
  from unknown_tool_is_data [OF h1 h2 h3] h1 show ?thesis
    by (simp add: call_get_name_def call_get_parameters_def unknown_call_def)
qed

text \<open>
  Claim C4 (arity and order). The returned list has one result per call, whether the call
  succeeded or failed; result \<open>i\<close> is the result of executing call \<open>i\<close> after the calls
  before it, carries that call's parameters and, when the call has a name, that name.
\<close>

theorem results_preserve_arity_and_order:
  "length (fst (execute_tool_calls self calls w)) = length calls \<and>
   map tcr_parameters (fst (execute_tool_calls self calls w))
     = map (\<lambda>call. call_get_parameters call []) calls \<and>
   (\<forall>i < length calls.
      fst (execute_tool_calls self calls w) ! i =
        fst (execute_call self (calls ! i) (snd (execute_tool_calls self (take i calls) w))) \<and>
      (\<forall>n. call_name (calls ! i) = Some n \<longrightarrow>
           tcr_name (fst (execute_tool_calls self calls w) ! i) = n))"
proof (intro conjI allI impI)
  show "length (fst (execute_tool_calls self calls w)) = length calls"
    by (rule length_execute_tool_calls)
  show "map tcr_parameters (fst (execute_tool_calls self calls w))
          = map (\<lambda>call. call_get_parameters call []) calls"
    by (rule nth_equalityI)
       (simp_all add: length_execute_tool_calls execute_tool_calls_nth execute_call_parameters)
next
  fix i assume "i < length calls"
  then show "fst (execute_tool_calls self calls w) ! i =
        fst (execute_call self (calls ! i) (snd (execute_tool_calls self (take i calls) w)))"
    by (rule execute_tool_calls_nth)
next
  fix i n assume "i < length calls" "call_name (calls ! i) = Some n"
  then show "tcr_name (fst (execute_tool_calls self calls w) ! i) = n"
    by (simp add: execute_tool_calls_nth execute_call_name)
qed

theorem results_preserve_arity_and_order_witness:
  "length (fst (execute_tool_calls example_agent [echo_call, failing_call, unknown_call] []))
     = length [echo_call, failing_call, unknown_call] \<and>
   (1::nat) < length [echo_call, failing_call, unknown_call] \<and>
   call_name ([echo_call, failing_call, unknown_call] ! 1) = Some ''failing'' \<and>
   tcr_name (fst (execute_tool_calls example_agent [echo_call, failing_call, unknown_call] []) ! 1)
     = ''failing'' \<and>
   fst (execute_tool_calls example_agent [echo_call, failing_call, unknown_call] []) ! 1
     = fst (execute_call example_agent failing_call [''echo''])"
proof -
  let ?calls = "[echo_call, failing_call, unknown_call]"
  have lt: "(1::nat) < length ?calls" by simp
  have nm: "call_name (?calls ! 1) = Some ''failing''"
    by (simp add: failing_call_def)
  have pre: "snd (execute_tool_calls example_agent (take 1 ?calls) []) = [''echo'']"
    by (simp add: example_defs execute_defs)
  from results_preserve_arity_and_order [of example_agent ?calls "[]"] lt nm pre
  show ?thesis by auto
qed

section \<open>The registry\<close>

lemma count_update:
  "distinct (map fst al) \<Longrightarrow> length (filter (\<lambda>p. fst p = k) (AList.update k v al)) = 1"
proof (induction al)
  case Nil
  show ?case by simp
next
  case (Cons p ps)
  show ?case
  proof (cases "fst p = k")
    case True
    with Cons.prems have "k \<notin> fst ` set ps" by auto
    then have "filter (\<lambda>p. fst p = k) ps = []"
      by (auto simp: filter_empty_conv)
    with True show ?thesis by simp
  next
    case False
    with Cons show ?thesis by simp
  qed
qed

lemma distinct_register_tool:
  "distinct (map fst (available_tools self)) \<Longrightarrow>
   distinct (map fst (available_tools (register_tool n f d p self)))"
  by (simp add: register_tool_def distinct_update)

lemma distinct_register_all:
  "distinct (map fst (available_tools self)) \<Longrightarrow>
   distinct (map fst (available_tools (register_all regs self)))"
  by (induction regs arbitrary: self) (auto simp: distinct_register_tool)

text \<open>
  Claim C6 (last write wins). After two registrations under one name, with any
  registrations in between, the registry has exactly one entry under that name, and its
  callable and schema are those of the second registration.
\<close>

theorem registry_last_write_wins:
  assumes "distinct (map fst (available_tools self))"
  shows "map_of (available_tools
                  (register_tool n f2 d2 p2 (register_all between (register_tool n f1 d1 p1 self)))) n
           = Some \<lparr>tool_func = f2,
                   tool_schema = \<lparr>schema_name = n, schema_description = d2,
                                  schema_parameters = p2\<rparr>\<rparr> \<and>
         length (filter (\<lambda>entry. fst entry = n)
                   (available_tools
                      (register_tool n f2 d2 p2
                         (register_all between (register_tool n f1 d1 p1 self))))) = 1"
proof -
  let ?mid = "register_all between (register_tool n f1 d1 p1 self)"
  have "distinct (map fst (available_tools ?mid))"
    using assms by (intro distinct_register_all distinct_register_tool)
  then show ?thesis
    by (simp add: register_tool_def [of n f2] update_conv' count_update)
qed

theorem registry_last_write_wins_witness:
  "distinct (map fst (available_tools example_agent)) \<and>
   map_of (available_tools
             (register_tool ''echo'' failing_tool ''second'' []
                (register_all [] (register_tool ''echo'' echo_tool ''first'' object_schema example_agent))))
          ''echo''
     = Some \<lparr>tool_func = failing_tool,
             tool_schema = \<lparr>schema_name = ''echo'', schema_description = ''second'',
                            schema_parameters = []\<rparr>\<rparr> \<and>
   map fst (available_tools
             (register_tool ''echo'' failing_tool ''second'' []
                (register_all [] (register_tool ''echo'' echo_tool ''first'' object_schema example_agent))))
     = [''echo'', ''failing'']"
proof -
  have d: "distinct (map fst (available_tools example_agent))"
    by (simp add: example_defs)
  have k: "map fst (available_tools
             (register_tool ''echo'' failing_tool ''second'' []
                (register_all [] (register_tool ''echo'' echo_tool ''first'' object_schema example_agent))))
     = [''echo'', ''failing'']"
    by (simp add: example_defs)
  from registry_last_write_wins [OF d, of "''echo''" failing_tool "''second''" "[]" "[]" echo_tool
         "''first''" object_schema] d k
  show ?thesis by simp
qed

section \<open>Tool preparation\<close>

lemma prepare_tools_loop_ok:
  assumes "\<forall>t \<in> snd ` set items. ''properties'' \<in> fst ` set (schema_parameters (tool_schema t))"
  shows "\<exists>tools. prepare_tools_loop items acc = Inr tools \<and>
                 map tool_name tools = map tool_name acc @ map fst items"
  using assms
proof (induction items arbitrary: acc)
  case Nil
  show ?case by simp
next
  case (Cons item items)
  obtain n t where item: "item = (n, t)" by (cases item)
  from Cons.prems have "''properties'' \<in> fst ` set (schema_parameters (tool_schema t))"
    by (simp add: item)
  then obtain props where props: "map_of (schema_parameters (tool_schema t)) ''properties'' = Some props"
    by (metis map_of_eq_None_iff not_Some_eq)
  from Cons.prems have rest:
    "\<forall>t \<in> snd ` set items. ''properties'' \<in> fst ` set (schema_parameters (tool_schema t))"
    by simp
  from Cons.IH [OF rest,
         of "acc @ [\<lparr>tool_name = n, tool_description = schema_description (tool_schema t),
                     tool_parameters =
                       \<lparr>type_tag = ''object'', properties = props,
                        required = get_default (schema_parameters (tool_schema t))
                                     ''required'' (JList [])\<rparr>\<rparr>]"]
  show ?case
    by (simp add: item subscript_def props)
qed

lemma prepare_tools_loop_raises:
  assumes "\<not> (\<forall>t \<in> snd ` set items. ''properties'' \<in> fst ` set (schema_parameters (tool_schema t)))"
  shows "prepare_tools_loop items acc = Inl (KeyError ''properties'')"
  using assms
proof (induction items arbitrary: acc)
  case Nil
  then show ?case by simp
next
  case (Cons item items)
  obtain n t where item: "item = (n, t)" by (cases item)
  show ?case
  proof (cases "map_of (schema_parameters (tool_schema t)) ''properties''")
    case None
    then show ?thesis by (simp add: item subscript_def)
  next
    case (Some props)
    then have "''properties'' \<in> fst ` set (schema_parameters (tool_schema t))"
      by (metis map_of_eq_None_iff option.distinct(1))
    with Cons.prems have
      "\<not> (\<forall>t \<in> snd ` set items. ''properties'' \<in> fst ` set (schema_parameters (tool_schema t)))"
      by (simp add: item)
    from Cons.IH [OF this] show ?thesis
      by (simp add: item subscript_def Some)
  qed
qed

lemma registered_in_registry:
  "(n, v) \<in> set (AList.update n v al)"
  by (induction al) auto

lemma prepare_tools_example: "prepare_tools example_agent =
   Inr [\<lparr>tool_name = ''echo'', tool_description = ''echoes'',
          tool_parameters = \<lparr>type_tag = ''object'', properties = JDict [], required = JList []\<rparr>\<rparr>,
        \<lparr>tool_name = ''failing'', tool_description = ''always fails'',
          tool_parameters = \<lparr>type_tag = ''object'', properties = JDict [], required = JList []\<rparr>\<rparr>]"
  by (simp add: example_defs prepare_tools_def subscript_def get_default_def)

lemmas chat_defs =
  chat_def chat_body_def chat_succeeds_without_tools_def prepare_tools_def prepare_messages_def
  has_tool_calls_def response_content_def plain_backend_def fresh_agent_def Let_def

text \<open>
  Claim C10 (tool preparation needs \<open>properties\<close>). \<open>_prepare_tools\<close> returns a schema
  list, one entry per tool in registry order, exactly when the parameters of every
  registered tool contain the key \<open>properties\<close>; otherwise it raises
  \<open>KeyError('properties')\<close>, and \<open>chat\<close> raises it before the backend or any tool is
  called, leaving agent and world as they were. \<open>register_tool\<close> accepts parameters
  without that key, and the registry it leaves makes \<open>_prepare_tools\<close> raise.
\<close>

theorem prepare_tools_needs_properties:
  "(if \<forall>t \<in> snd ` set (available_tools self).
         ''properties'' \<in> fst ` set (schema_parameters (tool_schema t))
    then \<exists>tools. prepare_tools self = Inr tools \<and>
                 map tool_name tools = map fst (available_tools self)
    else prepare_tools self = Inl (KeyError ''properties'') \<and>
         chat dumps backend message user_info self w = (Inl (KeyError ''properties''), self, w)) \<and>
   (''properties'' \<notin> fst ` set parameters \<longrightarrow>
      prepare_tools (register_tool name callable description parameters self)
        = Inl (KeyError ''properties''))"
proof (intro conjI impI)
  show "if \<forall>t \<in> snd ` set (available_tools self).
         ''properties'' \<in> fst ` set (schema_parameters (tool_schema t))
    then \<exists>tools. prepare_tools self = Inr tools \<and>
                 map tool_name tools = map fst (available_tools self)
    else prepare_tools self = Inl (KeyError ''properties'') \<and>
         chat dumps backend message user_info self w = (Inl (KeyError ''properties''), self, w)"
  proof (cases "\<forall>t \<in> snd ` set (available_tools self).
         ''properties'' \<in> fst ` set (schema_parameters (tool_schema t))")
    case True
    from prepare_tools_loop_ok [OF True, of "[]"] True show ?thesis
      by (auto simp: prepare_tools_def)
  next
    case False
    then have ne: "available_tools self \<noteq> []" by auto
    from prepare_tools_loop_raises [OF False, of "[]"] ne
    have "prepare_tools self = Inl (KeyError ''properties'')"
      by (simp add: prepare_tools_def)
    with False show ?thesis
      by (simp add: chat_def Let_def)
  qed
next
  assume lacks: "''properties'' \<notin> fst ` set parameters"
  let ?entry = "\<lparr>tool_func = callable,
                 tool_schema = \<lparr>schema_name = name, schema_description = description,
                                schema_parameters = parameters\<rparr>\<rparr>"
  let ?self = "register_tool name callable description parameters self"
  have mem: "(name, ?entry) \<in> set (available_tools ?self)"
    by (simp add: register_tool_def registered_in_registry)
  then have ne: "available_tools ?self \<noteq> []" by auto
  from mem have "?entry \<in> snd ` set (available_tools ?self)"
    by force
  with lacks have "\<not> (\<forall>t \<in> snd ` set (available_tools ?self).
         ''properties'' \<in> fst ` set (schema_parameters (tool_schema t)))"
    by (metis registered_tool.select_convs(2) tool_schema.select_convs(3))
  from prepare_tools_loop_raises [OF this, of "[]"] ne
  show "prepare_tools ?self = Inl (KeyError ''properties'')"
    by (simp add: prepare_tools_def)
qed

theorem prepare_tools_needs_properties_witness:
  "map (\<lambda>(n, t). map fst (schema_parameters (tool_schema t))) (available_tools example_agent)
     = [[''type'', ''properties''], [''type'', ''properties'']] \<and>
   (\<exists>tools. prepare_tools example_agent = Inr tools \<and> map tool_name tools = [''echo'', ''failing'']) \<and>
   ''properties'' \<notin> fst ` set [(''type'', JStr ''object'')] \<and>
   prepare_tools (register_tool ''grep'' echo_tool ''searches'' [(''type'', JStr ''object'')]
                    example_agent)
     = Inl (KeyError ''properties'') \<and>
   chat example_dumps plain_backend ''hello'' None
     (register_tool ''grep'' echo_tool ''searches'' [(''type'', JStr ''object'')] example_agent) []
     = (Inl (KeyError ''properties''),
        register_tool ''grep'' echo_tool ''searches'' [(''type'', JStr ''object'')] example_agent, [])"
proof -
  let ?bad = "register_tool ''grep'' echo_tool ''searches'' [(''type'', JStr ''object'')] example_agent"
  have good: "\<forall>t \<in> snd ` set (available_tools example_agent).
       ''properties'' \<in> fst ` set (schema_parameters (tool_schema t))"
    by (simp add: example_defs)
  have names: "map fst (available_tools example_agent) = [''echo'', ''failing'']"
    by (simp add: example_defs)
  have lacks: "''properties'' \<notin> fst ` set [(''type'', JStr ''object'')]"
    by simp
  have bad: "\<not> (\<forall>t \<in> snd ` set (available_tools ?bad).
       ''properties'' \<in> fst ` set (schema_parameters (tool_schema t)))"
    by (simp add: example_defs)
  have keys: "map (\<lambda>(n, t). map fst (schema_parameters (tool_schema t)))
                (available_tools example_agent)
                = [[''type'', ''properties''], [''type'', ''properties'']]"
    by (simp add: example_defs)
  from prepare_tools_needs_properties
         [where self = example_agent and parameters = "[(''type'', JStr ''object'')]"
            and name = "''grep''" and callable = echo_tool and description = "''searches''"
            and dumps = example_dumps and backend = plain_backend and message = "''hello''"
            and user_info = None and w = "[]"]
       prepare_tools_needs_properties
         [where self = ?bad and parameters = "[]" and name = "''x''" and callable = echo_tool
            and description = "''x''" and dumps = example_dumps and backend = plain_backend
            and message = "''hello''" and user_info = None and w = "[]"]
       good names lacks bad keys
  show ?thesis by simp
qed

section \<open>The chat boundary and the history\<close>

text \<open>
  Claim C3 (chat error boundary, history untouched). When the backend invocation raises,
  \<open>chat\<close> returns the string \<open>Error communicating with Ollama: \<close> followed by the
  exception's message instead of raising, and the agent, its conversation history
  included, and the world are as before the call.
\<close>

theorem chat_error_boundary:
  assumes "model self = Some m" and "m \<noteq> []" and "prepare_tools self = Inr tools"
      and "backend m (prepare_messages self (format_user_message dumps message user_info)) = Inl e"
  shows "chat dumps backend message user_info self w =
           (Inr (Text (''Error communicating with Ollama: '' @ str_exn e)), self, w) \<and>
         conversation_history (fst (snd (chat dumps backend message user_info self w)))
           = conversation_history self"
  using assms by (simp add: chat_def chat_body_def Let_def)

theorem chat_error_boundary_witness:
  "model example_agent = Some ''llama3'' \<and> ''llama3'' \<noteq> [] \<and>
   (\<exists>tools. prepare_tools example_agent = Inr tools) \<and>
   broken_backend ''llama3''
      (prepare_messages example_agent (format_user_message example_dumps ''hello'' None))
     = Inl (ConnectionError ''connection refused'') \<and>
   chat example_dumps broken_backend ''hello'' None example_agent [''earlier'']
     = (Inr (Text ''Error communicating with Ollama: connection refused''), example_agent,
        [''earlier'']) \<and>
   conversation_history
     (fst (snd (chat example_dumps broken_backend ''hello'' None example_agent [''earlier''])))
     = []"
proof -
  have h1: "model example_agent = Some ''llama3''"
    by (simp add: example_defs)
  have h2: "''llama3'' \<noteq> []" by simp
  note h3 = prepare_tools_example
  have h4: "broken_backend ''llama3''
      (prepare_messages example_agent (format_user_message example_dumps ''hello'' None))
     = Inl (ConnectionError ''connection refused'')"
    by (simp add: broken_backend_def)
  have h5: "conversation_history example_agent = []"
    by (simp add: example_defs)
  from chat_error_boundary
         [where self = example_agent and m = "''llama3''" and backend = broken_backend
            and dumps = example_dumps and message = "''hello''" and user_info = None
            and w = "[''earlier'']", OF h1 h2 h3 h4]
       h1 h3 h4 h5
  show ?thesis by simp
qed

lemma chat_success_step:
  assumes "chat_succeeds_without_tools dumps backend message user_info self"
  shows "\<exists>c. chat dumps backend message user_info self w =
           (Inr (Text c),
            self\<lparr>conversation_history := conversation_history self @
               [\<lparr>role = ''user'', content = format_user_message dumps message user_info\<rparr>,
                \<lparr>role = ''assistant'', content = c\<rparr>]\<rparr>, w)"
  using assms
  by (auto simp: chat_succeeds_without_tools_def chat_def chat_body_def Let_def
           split: option.splits sum.splits)

lemma chat_prefix:
  "prefix (conversation_history self)
          (conversation_history (fst (snd (chat dumps backend message user_info self w))))"
  by (simp add: chat_def chat_body_def Let_def case_prod_beta
           split: option.splits sum.splits)

lemma chats_prefix:
  "prefix (conversation_history self) (conversation_history (fst (chats dumps steps self w)))"
proof (induction steps arbitrary: self w)
  case Nil
  show ?case by simp
next
  case (Cons step steps)
  obtain backend message user_info where step: "step = (backend, message, user_info)"
    by (cases step)
  obtain r self' w' where c: "chat dumps backend message user_info self w = (r, self', w')"
    by (cases "chat dumps backend message user_info self w")
  have p: "prefix (conversation_history self) (conversation_history self')"
    using chat_prefix [of self dumps backend message user_info w] by (simp add: c)
  show ?case
  proof (cases r)
    case (Inl e)
    with p show ?thesis by (simp add: step c)
  next
    case (Inr v)
    from p Cons.IH [of self' w'] have
      "prefix (conversation_history self) (conversation_history (fst (chats dumps steps self' w')))"
      by (rule prefix_order.trans)
    with Inr show ?thesis by (simp add: step c)
  qed
qed

lemma chats_take_prefix:
  "prefix (conversation_history (fst (chats dumps (take k steps) self w)))
          (conversation_history (fst (chats dumps steps self w)))"
proof (induction steps arbitrary: k self w)
  case Nil
  show ?case by simp
next
  case (Cons step steps)
  obtain backend message user_info where step: "step = (backend, message, user_info)"
    by (cases step)
  show ?case
  proof (cases k)
    case 0
    then show ?thesis using chats_prefix [of self dumps "step # steps" w] by simp
  next
    case (Suc j)
    obtain r self' w' where c: "chat dumps backend message user_info self w = (r, self', w')"
      by (cases "chat dumps backend message user_info self w")
    show ?thesis
      using Cons.IH [of j self' w'] by (cases r) (simp_all add: Suc step c)
  qed
qed

lemma history_after_successes:
  assumes "all_succeed_without_tools dumps steps self w"
  shows "\<exists>ext. conversation_history (fst (chats dumps steps self w)) = conversation_history self @ ext \<and>
               length ext = 2 * length steps \<and>
               map role ext = concat (replicate (length steps) [''user'', ''assistant''])"
  using assms
proof (induction steps arbitrary: self w)
  case Nil
  show ?case by simp
next
  case (Cons step steps)
  obtain backend message user_info where step: "step = (backend, message, user_info)"
    by (cases step)
  from Cons.prems have ok: "chat_succeeds_without_tools dumps backend message user_info self"
    by (simp add: step)
  from chat_success_step [OF ok, of w] obtain c where
    c: "chat dumps backend message user_info self w =
           (Inr (Text c),
            self\<lparr>conversation_history := conversation_history self @
               [\<lparr>role = ''user'', content = format_user_message dumps message user_info\<rparr>,
                \<lparr>role = ''assistant'', content = c\<rparr>]\<rparr>, w)"
    by blast
  let ?self' = "self\<lparr>conversation_history := conversation_history self @
               [\<lparr>role = ''user'', content = format_user_message dumps message user_info\<rparr>,
                \<lparr>role = ''assistant'', content = c\<rparr>]\<rparr>"
  from Cons.prems have "all_succeed_without_tools dumps steps ?self' w"
    by (simp add: step c)
  from Cons.IH [OF this] obtain ext where
    ext: "conversation_history (fst (chats dumps steps ?self' w)) = conversation_history ?self' @ ext"
         "length ext = 2 * length steps"
         "map role ext = concat (replicate (length steps) [''user'', ''assistant''])"
    by blast
  let ?ext = "[\<lparr>role = ''user'', content = format_user_message dumps message user_info\<rparr>,
               \<lparr>role = ''assistant'', content = c\<rparr>] @ ext"
  have "conversation_history (fst (chats dumps (step # steps) self w))
          = conversation_history self @ ?ext"
    using ext(1) by (simp add: step c)
  moreover have "length ?ext = 2 * length (step # steps)"
    using ext(2) by simp
  moreover have "map role ?ext = concat (replicate (length (step # steps)) [''user'', ''assistant''])"
    using ext(3) by simp
  ultimately show ?case by blast
qed

lemma history_register_tool:
  "conversation_history (register_tool n f d p self) = conversation_history self"
  by (simp add: register_tool_def)

lemma history_register_all:
  "conversation_history (register_all regs self) = conversation_history self"
  by (induction regs arbitrary: self) (auto simp: history_register_tool)

text \<open>
  Claim C5 (history alternation). Starting from a freshly constructed agent, with any tools
  registered during setup, after \<open>N\<close> successful chat calls without tool use the history
  has \<open>2 * N\<close> entries whose roles are \<open>user\<close>, \<open>assistant\<close>, \<open>user\<close>, \<open>assistant\<close>, ...;
  the history after any first \<open>k\<close> calls is a prefix of the final history, and for any
  chat call at all, successful or not, the history before it is a prefix of the history
  after it: entries are only ever appended, never changed.
\<close>

theorem history_alternation:
  assumes "all_succeed_without_tools dumps steps
             (register_all regs (fresh_agent m prompt)) (w :: 'w)"
  shows "length (conversation_history
                   (fst (chats dumps steps (register_all regs (fresh_agent m prompt)) w)))
           = 2 * length steps \<and>
         map role (conversation_history
                     (fst (chats dumps steps (register_all regs (fresh_agent m prompt)) w)))
           = concat (replicate (length steps) [''user'', ''assistant'']) \<and>
         (\<forall>k. prefix (conversation_history
                        (fst (chats dumps (take k steps) (register_all regs (fresh_agent m prompt)) w)))
                     (conversation_history
                        (fst (chats dumps steps (register_all regs (fresh_agent m prompt)) w)))) \<and>
         (\<forall>backend message user_info self w'.
            prefix (conversation_history self)
                   (conversation_history
                      (fst (snd (chat dumps backend message user_info (self :: 'w agent) w')))))"
proof -
  have "conversation_history (register_all regs (fresh_agent m prompt :: 'w agent)) = []"
    by (simp add: history_register_all fresh_agent_def)
  with history_after_successes [OF assms] show ?thesis
    by (auto simp: chats_take_prefix chat_prefix)
qed

theorem history_alternation_witness:
  "all_succeed_without_tools example_dumps
     [(plain_backend, ''hello'', None), (plain_backend, ''again'', Some [(''cursor'', JInt 5)])]
     (register_all [(''echo'', echo_tool, ''echoes'', object_schema)]
        (fresh_agent (Some ''llama3'') ''You are a coding assistant.'')) [] \<and>
   map role (conversation_history (fst (chats example_dumps
     [(plain_backend, ''hello'', None), (plain_backend, ''again'', Some [(''cursor'', JInt 5)])]
     (register_all [(''echo'', echo_tool, ''echoes'', object_schema)]
        (fresh_agent (Some ''llama3'') ''You are a coding assistant.'')) [])))
     = [''user'', ''assistant'', ''user'', ''assistant'']"
proof -
  let ?steps = "[(plain_backend, ''hello'', None),
                 (plain_backend, ''again'', Some [(''cursor'', JInt 5)])]"
  let ?agent = "register_all [(''echo'', echo_tool, ''echoes'', object_schema)]
                  (fresh_agent (Some ''llama3'') ''You are a coding assistant.'')"
  have ok: "all_succeed_without_tools example_dumps ?steps ?agent []"
    by (simp add: chat_defs register_tool_def object_schema_def subscript_def get_default_def)
  from history_alternation [OF ok]
  have "map role (conversation_history (fst (chats example_dumps ?steps ?agent [])))
          = concat (replicate (length ?steps) [''user'', ''assistant''])"
    by blast
  then have "map role (conversation_history (fst (chats example_dumps ?steps ?agent [])))
          = [''user'', ''assistant'', ''user'', ''assistant'']"
    by simp
  with ok show ?thesis
    by blast
qed

section \<open>The permission prompt\<close>

lemma prompt_loop_invalid:
  assumes "stdin pos = Some line" and "\<not> valid_answer strip lower line"
  shows "prompt_loop strip lower stdin pos out =
           prompt_loop strip lower stdin (Suc pos) (out @ [prompt_text, retry_text])"
  using assms by (subst prompt_loop.simps) (simp add: valid_answer_def Let_def)

lemma prompt_loop_valid:
  assumes "stdin pos = Some line" and "valid_answer strip lower line"
  shows "prompt_loop strip lower stdin pos out =
           Some (Inr (if lower (strip line) \<in> set [''y'', ''yes''] then GRANTED else DENIED),
                 Suc pos, out @ [prompt_text])"
  using assms by (subst prompt_loop.simps) (auto simp: valid_answer_def Let_def)

lemma prompt_loop_skip:
  assumes "\<forall>j<k. \<exists>l. stdin (pos + j) = Some l \<and> \<not> valid_answer strip lower l"
  shows "prompt_loop strip lower stdin pos out =
           prompt_loop strip lower stdin (pos + k)
             (out @ concat (replicate k [prompt_text, retry_text]))"
  using assms
proof (induction k arbitrary: pos out)
  case 0
  show ?case by simp
next
  case (Suc k)
  from Suc.prems obtain l where l: "stdin pos = Some l" "\<not> valid_answer strip lower l"
    by force
  have "\<forall>j<k. \<exists>l. stdin (Suc pos + j) = Some l \<and> \<not> valid_answer strip lower l"
  proof (intro allI impI)
    fix j assume "j < k"
    then have "Suc j < Suc k" by simp
    with Suc.prems have "\<exists>l. stdin (pos + Suc j) = Some l \<and> \<not> valid_answer strip lower l"
      by blast
    then show "\<exists>l. stdin (Suc pos + j) = Some l \<and> \<not> valid_answer strip lower l" by simp
  qed
  from Suc.IH [where pos = "Suc pos" and out = "out @ [prompt_text, retry_text]", OF this]
  show ?case
    by (simp add: prompt_loop_invalid [where stdin = stdin and pos = pos, OF l])
qed

lemma prompt_loop_never_ask:
  assumes "prompt_loop strip lower stdin pos out = Some y"
  shows "fst y \<noteq> Inr ASK"
proof (rule prompt_loop.raw_induct [where P = "\<lambda>_ _ _ _ _ y. fst y \<noteq> Inr ASK", OF _ assms])
  fix f :: "(string \<Rightarrow> string) \<Rightarrow> (string \<Rightarrow> string) \<Rightarrow> (nat \<Rightarrow> string option) \<Rightarrow> nat
            \<Rightarrow> string list \<Rightarrow> ((exn + PermissionStatus) \<times> nat \<times> string list) option"
  fix strip lower :: "string \<Rightarrow> string"
  fix stdin pos out y
  assume IH: "\<And>strip lower stdin pos out y.
                f strip lower stdin pos out = Some y \<Longrightarrow> fst y \<noteq> Inr ASK"
  assume "(case stdin pos of
        None \<Rightarrow> Some (Inl (EOFError ''EOF when reading a line''), pos, out @ [prompt_text])
      | Some line \<Rightarrow>
          (let response = lower (strip line) in
           if response \<in> set [''y'', ''yes'']
           then Some (Inr GRANTED, Suc pos, out @ [prompt_text])
           else if response \<in> set [''n'', ''no'']
           then Some (Inr DENIED, Suc pos, out @ [prompt_text])
           else f strip lower stdin (Suc pos) (out @ [prompt_text, retry_text]))) = Some y"
  then show "fst y \<noteq> Inr ASK"
    using IH by (auto split: option.splits if_splits simp: Let_def)
qed

lemmas string_defs =
  ascii_lower_def ascii_strip_def ascii_space_def ascii_lower_char_def valid_answer_def

text \<open>
  Claim C7 (default interactive permission callback). Whatever \<open>str.strip\<close> and \<open>str.lower\<close>
  do: when line \<open>k\<close> of the input is the first valid answer, the callback returns after
  reading \<open>k + 1\<close> lines, having shown the prompt \<open>k + 1\<close> times and the retry notice once
  for each of the \<open>k\<close> invalid lines, for any \<open>k\<close>. It returns \<open>GRANTED\<close> exactly when the
  stripped, lower-cased line is \<open>y\<close> or \<open>yes\<close>, and \<open>DENIED\<close> exactly when it is \<open>n\<close> or
  \<open>no\<close>. On no input whatsoever does it return \<open>ASK\<close>.
\<close>

theorem default_permission_callback:
  assumes "stdin k = Some line" and "valid_answer strip lower line"
      and "\<forall>j<k. \<exists>l. stdin j = Some l \<and> \<not> valid_answer strip lower l"
  shows "(\<exists>status.
            permission_request_callback dumps strip lower request stdin 0 out =
              Some (Inr status, Suc k,
                    out @ request_header dumps request
                      @ concat (replicate k [prompt_text, retry_text]) @ [prompt_text]) \<and>
            (status = GRANTED \<longleftrightarrow> lower (strip line) \<in> {''y'', ''yes''}) \<and>
            (status = DENIED \<longleftrightarrow> lower (strip line) \<in> {''n'', ''no''}) \<and>
            status \<noteq> ASK) \<and>
         (\<forall>input pos printed y.
            permission_request_callback dumps strip lower request input pos printed = Some y
              \<longrightarrow> fst y \<noteq> Inr ASK)"
proof (intro conjI allI impI)
  have skip: "\<forall>j<k. \<exists>l. stdin (0 + j) = Some l \<and> \<not> valid_answer strip lower l"
    using assms(3) by simp
  have "permission_request_callback dumps strip lower request stdin 0 out =
          prompt_loop strip lower stdin (0 + k)
            ((out @ request_header dumps request) @ concat (replicate k [prompt_text, retry_text]))"
    unfolding permission_request_callback_def
    by (rule prompt_loop_skip [where stdin = stdin and pos = 0 and k = k, OF skip])
  also have "\<dots> =
          Some (Inr (if lower (strip line) \<in> set [''y'', ''yes''] then GRANTED else DENIED), Suc k,
                ((out @ request_header dumps request)
                   @ concat (replicate k [prompt_text, retry_text])) @ [prompt_text])"
    using prompt_loop_valid [where stdin = stdin and pos = k, OF assms(1,2)] by simp
  finally have "permission_request_callback dumps strip lower request stdin 0 out =
          Some (Inr (if lower (strip line) \<in> set [''y'', ''yes''] then GRANTED else DENIED), Suc k,
                out @ request_header dumps request
                  @ concat (replicate k [prompt_text, retry_text]) @ [prompt_text])"
    by simp
  moreover have "lower (strip line) \<in> {''y'', ''yes''} \<or> lower (strip line) \<in> {''n'', ''no''}"
    using assms(2) by (auto simp: valid_answer_def)
  ultimately show "\<exists>status.
            permission_request_callback dumps strip lower request stdin 0 out =
              Some (Inr status, Suc k,
                    out @ request_header dumps request
                      @ concat (replicate k [prompt_text, retry_text]) @ [prompt_text]) \<and>
            (status = GRANTED \<longleftrightarrow> lower (strip line) \<in> {''y'', ''yes''}) \<and>
            (status = DENIED \<longleftrightarrow> lower (strip line) \<in> {''n'', ''no''}) \<and>
            status \<noteq> ASK"
    by auto
next
  fix input pos printed y
  assume "permission_request_callback dumps strip lower request input pos printed = Some y"
  then show "fst y \<noteq> Inr ASK"
    unfolding permission_request_callback_def by (rule prompt_loop_never_ask)
qed

theorem default_permission_callback_witness:
  "example_stdin 0 = Some ''maybe'' \<and> \<not> valid_answer ascii_strip ascii_lower ''maybe'' \<and>
   example_stdin 1 = Some '' YES '' \<and> valid_answer ascii_strip ascii_lower '' YES '' \<and>
   permission_request_callback example_dumps ascii_strip ascii_lower example_request
       example_stdin 0 [] =
     Some (Inr GRANTED, 2,
           request_header example_dumps example_request
             @ [prompt_text, retry_text, prompt_text])"
proof -
  have h1: "example_stdin 1 = Some '' YES ''"
    by (simp add: example_stdin_def)
  have h2: "valid_answer ascii_strip ascii_lower '' YES ''"
    by (simp add: string_defs)
  have h3: "\<forall>j<1. \<exists>l. example_stdin j = Some l \<and> \<not> valid_answer ascii_strip ascii_lower l"
    by (simp add: example_stdin_def string_defs)
  have yes: "ascii_lower (ascii_strip '' YES '') = ''yes''"
    by (simp add: string_defs)
  from default_permission_callback
         [where stdin = example_stdin and k = 1 and dumps = example_dumps
            and strip = ascii_strip and lower = ascii_lower
            and request = example_request and out = "[]", OF h1 h2 h3]
  obtain status where
    "permission_request_callback example_dumps ascii_strip ascii_lower example_request
         example_stdin 0 [] =
       Some (Inr status, Suc 1,
             [] @ request_header example_dumps example_request
               @ concat (replicate 1 [prompt_text, retry_text]) @ [prompt_text])"
    "status = GRANTED \<longleftrightarrow> ascii_lower (ascii_strip '' YES '') \<in> {''y'', ''yes''}"
    by blast
  moreover have "example_stdin 0 = Some ''maybe''"
    and "\<not> valid_answer ascii_strip ascii_lower ''maybe''"
    by (simp_all add: example_stdin_def string_defs)
  ultimately show ?thesis
    using yes h1 h2 by simp
qed

section \<open>Message formatting\<close>

text \<open>
  Claim C8 as stated (for every present \<open>user_info\<close> the \<open>user_info\<close> block comes first)
  fails for the empty mapping, which is present but false under \<open>if user_info:\<close>: the
  result is the query block alone and the text \<open><user_info>\<close> occurs nowhere in it.
\<close>

theorem format_user_message_empty_info_counterexample:
  "format_user_message example_dumps ''hello'' (Some [])
     = ''<user_query>'' @ newline @ ''hello'' @ newline @ ''</user_query>'' \<and>
   \<not> sublist ''<user_info>'' (format_user_message example_dumps ''hello'' (Some []))"
  by (simp add: format_user_message_def user_query_block_def newline_def sublist_code(3))

text \<open>
  Claim C8, amended. For every message and every non-empty \<open>user_info\<close>, the result is the
  \<open>user_info\<close> block around the serialised mapping, a blank line, then the \<open>user_query\<close>
  block around the message: the \<open>user_info\<close> block ends before the query block begins.
  When \<open>user_info\<close> is \<open>None\<close> or empty, the result is the query block around the message
  and nothing else: it begins with the \<open>user_query\<close> tag, not with the \<open>user_info\<close> tag.
  The result is a function of message and \<open>user_info\<close>, so the formatting is deterministic.
\<close>

theorem format_user_message_order:
  "format_user_message dumps message (Some (entry # entries))
     = user_info_block (dumps (entry # entries)) @ newline @ newline @ user_query_block message \<and>
   prefix (user_info_block (dumps (entry # entries)))
          (format_user_message dumps message (Some (entry # entries))) \<and>
   suffix (user_query_block message)
          (format_user_message dumps message (Some (entry # entries))) \<and>
   length (user_info_block (dumps (entry # entries))) + 2 + length (user_query_block message)
     = length (format_user_message dumps message (Some (entry # entries))) \<and>
   format_user_message dumps message None = user_query_block message \<and>
   format_user_message dumps message (Some []) = user_query_block message \<and>
   prefix ''<user_query>'' (user_query_block message) \<and>
   \<not> prefix ''<user_info>'' (user_query_block message)"
proof (intro conjI)
  let ?info = "user_info_block (dumps (entry # entries))"
  let ?query = "user_query_block message"
  show both: "format_user_message dumps message (Some (entry # entries))
          = ?info @ newline @ newline @ ?query"
    by (simp add: format_user_message_def)
  show "prefix ?info (format_user_message dumps message (Some (entry # entries)))"
    unfolding both by (rule prefixI) simp
  have "format_user_message dumps message (Some (entry # entries))
          = (?info @ newline @ newline) @ ?query"
    unfolding both by simp
  then show "suffix ?query (format_user_message dumps message (Some (entry # entries)))"
    by (rule suffixI)
  show "length ?info + 2 + length ?query
          = length (format_user_message dumps message (Some (entry # entries)))"
    unfolding both by (simp add: newline_def)
  show "format_user_message dumps message None = ?query"
    by (simp add: format_user_message_def)
  show "format_user_message dumps message (Some []) = ?query"
    by (simp add: format_user_message_def)
  show "prefix ''<user_query>'' ?query"
    by (simp add: user_query_block_def)
  show "\<not> prefix ''<user_info>'' ?query"
    by (simp add: user_query_block_def)
qed

theorem format_user_message_order_witness:
  "format_user_message example_dumps ''hello'' (Some [(''cursor'', JInt 5)])
     = ''<user_info>'' @ newline @ ''{cursor}'' @ newline @ ''</user_info>'' @ newline @ newline
       @ ''<user_query>'' @ newline @ ''hello'' @ newline @ ''</user_query>'' \<and>
   format_user_message example_dumps ''hello'' None
     = ''<user_query>'' @ newline @ ''hello'' @ newline @ ''</user_query>''"
proof -
  from format_user_message_order [of example_dumps "''hello''" "(''cursor'', JInt 5)" "[]"]
  have "format_user_message example_dumps ''hello'' (Some [(''cursor'', JInt 5)])
          = user_info_block (example_dumps [(''cursor'', JInt 5)]) @ newline @ newline
            @ user_query_block ''hello''"
   and "format_user_message example_dumps ''hello'' None = user_query_block ''hello''"
    by blast+
  then show ?thesis
    by (simp add: user_info_block_def user_query_block_def example_dumps_def)
qed

end
